theory Spec2Isabelle
  imports Main "HOL-Library.Multiset"
begin

section \<open>Errors\<close>

text \<open>
  The serializers of \<^verbatim>\<open>backend/api/serializers.py\<close> raise two exceptions of the REST
  framework, \<^verbatim>\<open>ValidationError\<close> and \<^verbatim>\<open>NotFound\<close>. Each carries a dictionary with one key
  and one message. The messages are Russian sentences in the source; here a message is a
  constructor that keeps the data the sentence is formatted from.
\<close>

datatype py_type = PyInt | PyBool | PyStr

datatype message =
    Repeated_ingredients "string list"
      \<comment> \<open>the f-string of \<^verbatim>\<open>validate_ingredients\<close>, formatted from \<^verbatim>\<open>err_obj\<close>\<close>
  | Param_not_found
      \<comment> \<open>one of the parameters was not found\<close>
  | Expected_int "py_type list"
      \<comment> \<open>parameters of type int were expected, formatted from \<^verbatim>\<open>errors\<close>\<close>
  | User_already_subscribed
  | User_not_subscribed
  | Cannot_subscribe_to_self

datatype error =
    ValidationError string message
  | NotFound string message
  | Uncaught string
      \<comment> \<open>an exception that no handler of the source catches, by its name\<close>

section \<open>Ingredients of a recipe payload\<close>

text \<open>
  The model classes of \<^verbatim>\<open>recipes.models\<close> are not among the sources; their fields are
  taken as the serializers read them. An entry of the validated list \<^verbatim>\<open>ingred_recipes\<close> is
  a dictionary with the keys \<^verbatim>\<open>ingredient\<close> (an \<^verbatim>\<open>Ingredient\<close> instance, resolved by the
  primary-key field) and \<^verbatim>\<open>amount\<close>.
\<close>

record ingredient =
  ingr_id :: nat
  ingr_name :: string
  measurement_unit :: string

record ingredient_entry =
  ingredient :: ingredient
  amount :: int

text \<open>
  The loop of \<^verbatim>\<open>validate_ingredients\<close>: it walks \<^verbatim>\<open>value\<close> with the mutable set
  \<^verbatim>\<open>unique_ingredients\<close> and the list \<^verbatim>\<open>err_obj\<close>. An id still in the set is discarded from
  it; an id no longer in the set has its ingredient's name appended to \<^verbatim>\<open>err_obj\<close>.
\<close>

fun collect_repeats :: "ingredient_entry list \<Rightarrow> nat set \<Rightarrow> string list \<Rightarrow> string list" where
  "collect_repeats [] unique_ingredients err_obj = err_obj"
| "collect_repeats (ingred_recipe # rest) unique_ingredients err_obj =
     (if ingr_id (ingredient ingred_recipe) \<in> unique_ingredients
      then collect_repeats rest (unique_ingredients - {ingr_id (ingredient ingred_recipe)}) err_obj
      else collect_repeats rest unique_ingredients
             (err_obj @ [ingr_name (ingredient ingred_recipe)]))"

definition validate_ingredients :: "ingredient_entry list \<Rightarrow> error + ingredient_entry list" where
  "validate_ingredients val =
     (let ingredients = map (\<lambda>obj. ingr_id (ingredient obj)) val;
          unique_ingredients = set ingredients
      in if length ingredients \<noteq> card unique_ingredients
         then Inl (ValidationError ''detail''
                (Repeated_ingredients (collect_repeats val unique_ingredients [])))
         else Inr val)"

text \<open>
  The reading of the specification, to compare with the loop: the entry at position \<open>i\<close>
  is reported when its ingredient id already occurs at an earlier position.
\<close>

definition entry_ids :: "ingredient_entry list \<Rightarrow> nat list" where
  "entry_ids val = map (\<lambda>obj. ingr_id (ingredient obj)) val"

definition later_repeats :: "ingredient_entry list \<Rightarrow> string list" where
  "later_repeats val =
     map (\<lambda>i. ingr_name (ingredient (val ! i)))
       (filter (\<lambda>i. entry_ids val ! i \<in> set (take i (entry_ids val))) [0..<length val])"

section \<open>Python's \<^verbatim>\<open>int\<close> on a string\<close>

text \<open>
  Both the object-relational mapper (on a tag id) and \<^verbatim>\<open>get_recipes\<close> (on the query
  parameter) call Python's \<^verbatim>\<open>int\<close>. On a string it strips white space, reads an optional
  sign and then decimal digits, where single underscores may stand between digits; any
  other string raises \<^verbatim>\<open>ValueError\<close> (here \<open>None\<close>). Strings are taken to be ASCII.
\<close>

definition is_space :: "char \<Rightarrow> bool" where
  "is_space c = (c \<in> set [CHR 0x09, CHR 0x0A, CHR 0x0B, CHR 0x0C, CHR 0x0D,
                           CHR 0x1C, CHR 0x1D, CHR 0x1E, CHR 0x1F, CHR 0x20])"

definition strip :: "string \<Rightarrow> string" where
  "strip s = rev (dropWhile is_space (rev (dropWhile is_space s)))"

definition is_digit :: "char \<Rightarrow> bool" where
  "is_digit c = (c \<in> set ''0123456789'')"

definition digit_value :: "char \<Rightarrow> int" where
  "digit_value c = int (of_char c) - 48"

fun digits :: "int \<Rightarrow> string \<Rightarrow> int option" where
  "digits acc [] = Some acc"
| "digits acc (c # cs) =
     (if is_digit c then digits (acc * 10 + digit_value c) cs
      else if c = CHR ''_''
           then (case cs of
                   [] \<Rightarrow> None
                 | d # _ \<Rightarrow> if is_digit d then digits acc cs else None)
           else None)"

definition unsigned :: "string \<Rightarrow> int option" where
  "unsigned cs =
     (case cs of
        [] \<Rightarrow> None
      | d # _ \<Rightarrow> if is_digit d then digits 0 cs else None)"

definition py_int :: "string \<Rightarrow> int option" where
  "py_int s =
     (case strip s of
        [] \<Rightarrow> None
      | c # cs \<Rightarrow>
          if c = CHR ''-'' then map_option uminus (unsigned cs)
          else if c = CHR ''+'' then unsigned cs
          else unsigned (c # cs))"

section \<open>Tag ids as the client sends them\<close>

text \<open>
  \<^verbatim>\<open>create\<close> and \<^verbatim>\<open>update\<close> read the tag ids from \<^verbatim>\<open>self.initial_data\<close>, that is, as the
  JSON values of the request, before any validation: \<^verbatim>\<open>TagSerializer\<close> has read-only
  fields only and checks nothing. Integers, booleans and strings are modelled. What the
  mapper does with null, floats, arrays and objects depends on the version of the
  framework and on the database, and no statement below is about them.
\<close>

datatype tag_value = TInt int | TBool bool | TStr string

fun type_of :: "tag_value \<Rightarrow> py_type" where
  "type_of (TInt _) = PyInt"
| "type_of (TBool _) = PyBool"
| "type_of (TStr _) = PyStr"

datatype db_exception = IntegrityError | ValueError

text \<open>
  The integer field of the mapper prepares a value with \<^verbatim>\<open>int(value)\<close> and passes
  \<^verbatim>\<open>ValueError\<close> on.
\<close>

fun get_prep_value :: "tag_value \<Rightarrow> db_exception + int" where
  "get_prep_value (TInt n) = Inr n"
| "get_prep_value (TBool b) = Inr (if b then 1 else 0)"
| "get_prep_value (TStr s) = (case py_int s of None \<Rightarrow> Inl ValueError | Some n \<Rightarrow> Inr n)"

fun get_target_ids :: "tag_value list \<Rightarrow> db_exception + int list" where
  "get_target_ids [] = Inr []"
| "get_target_ids (obj # objs) =
     (case get_prep_value obj of
        Inl e \<Rightarrow> Inl e
      | Inr n \<Rightarrow>
          (case get_target_ids objs of
             Inl e \<Rightarrow> Inl e
           | Inr ns \<Rightarrow> Inr (n # ns)))"

section \<open>The database\<close>

text \<open>
  One list of rows per table. \<open>recipe_tags\<close> is the table behind the many-to-many
  field \<^verbatim>\<open>Recipe.tags\<close>, \<open>ingred_recipes\<close> the table of \<^verbatim>\<open>IngredientRecipe\<close> (related name
  \<^verbatim>\<open>ingred_recipes\<close>), \<open>favourite\<close> the table of \<^verbatim>\<open>FavouriteRecipes\<close> (related name
  \<^verbatim>\<open>favourite\<close>), \<open>carts\<close> the table behind the related name \<^verbatim>\<open>carts\<close>, and
  \<open>subscriptions\<close> the table of \<^verbatim>\<open>Subscriptions\<close> of \<^verbatim>\<open>users/models.py\<close>. Every statement
  of the source is committed on its own: the sources open no transaction.
\<close>

record recipe =
  recipe_id :: nat
  author :: nat
  recipe_name :: string
  image :: string
  recipe_text :: string
  cooking_time :: int

record ingred_recipe =
  ir_recipe :: nat
  ir_ingredient :: ingredient
  ir_amount :: int

record database =
  tag_table :: "int list"
  recipe_table :: "recipe list"
  recipe_tags :: "(nat \<times> int) list"
  ingred_recipes :: "ingred_recipe list"
  favourite :: "(nat \<times> nat) list"
  carts :: "(nat \<times> nat) list"
  subscriptions :: "(nat \<times> nat) list"
  next_recipe_id :: nat



subsection \<open>The related managers\<close>

definition tags_of :: "database \<Rightarrow> nat \<Rightarrow> int list" where
  "tags_of s rid = map snd (filter (\<lambda>(r, t). r = rid) (recipe_tags s))"

definition ingred_recipes_of :: "database \<Rightarrow> nat \<Rightarrow> ingred_recipe list" where
  "ingred_recipes_of s rid = filter (\<lambda>row. ir_recipe row = rid) (ingred_recipes s)"

definition tags_clear :: "nat \<Rightarrow> database \<Rightarrow> database" where
  "tags_clear rid s = s\<lparr>recipe_tags := filter (\<lambda>(r, t). r \<noteq> rid) (recipe_tags s)\<rparr>"

text \<open>
  \<^verbatim>\<open>recipe.tags.add(*tags)\<close>, a call into the object-relational mapper: the values are
  prepared in order, so a \<^verbatim>\<open>ValueError\<close> is raised before the database is touched; the
  ids not yet linked to the recipe are inserted in one transaction of the manager, which
  the database refuses as a whole (\<^verbatim>\<open>IntegrityError\<close>) when one of them is not the id of
  a tag.
\<close>

definition tags_add :: "nat \<Rightarrow> tag_value list \<Rightarrow> database \<Rightarrow> db_exception + database" where
  "tags_add rid objs s =
     (case get_target_ids objs of
        Inl e \<Rightarrow> Inl e
      | Inr target_ids \<Rightarrow>
          (let missing = filter (\<lambda>t. (rid, t) \<notin> set (recipe_tags s)) (remdups target_ids)
           in if list_all (\<lambda>t. t \<in> set (tag_table s)) missing
              then Inr (s\<lparr>recipe_tags := recipe_tags s @ map (Pair rid) missing\<rparr>)
              else Inl IntegrityError))"

definition ingredients_clear :: "nat \<Rightarrow> database \<Rightarrow> database" where
  "ingredients_clear rid s =
     s\<lparr>ingred_recipes := filter (\<lambda>row. ir_recipe row \<noteq> rid) (ingred_recipes s)\<rparr>"

definition ingred_recipes_create :: "nat \<Rightarrow> database \<Rightarrow> ingredient_entry \<Rightarrow> database" where
  "ingred_recipes_create rid s entry =
     s\<lparr>ingred_recipes := ingred_recipes s @
         [\<lparr>ir_recipe = rid, ir_ingredient = ingredient entry, ir_amount = amount entry\<rparr>]\<rparr>"


section \<open>\<^verbatim>\<open>RecipeSerializer\<close>: writing a recipe\<close>


text \<open>
  What \<^verbatim>\<open>update\<close> receives: the view allows \<^verbatim>\<open>PATCH\<close> only, so a scalar field may be
  absent. The keys \<^verbatim>\<open>tags\<close> and \<^verbatim>\<open>ingred_recipes\<close> are present (without them \<^verbatim>\<open>pop\<close>
  raises before anything is written).
\<close>

record update_data =
  u_name :: "string option"
  u_image :: "string option"
  u_text :: "string option"
  u_cooking_time :: "int option"
  u_tags :: "tag_value list"
  u_ingredients :: "ingredient_entry list"


text \<open>
  \<^verbatim>\<open>errors = [type(tag) for tag in tags if type(tag) is not int]\<close>
\<close>

definition non_int_types :: "tag_value list \<Rightarrow> py_type list" where
  "non_int_types tags = map type_of (filter (\<lambda>tag. type_of tag \<noteq> PyInt) tags)"


text \<open>
  \<^verbatim>\<open>super().update(instance, validated_data)\<close> sets the fields that are present and saves
  the instance: the row with its id is replaced, or inserted when there is none.
\<close>

definition set_fields :: "update_data \<Rightarrow> recipe \<Rightarrow> recipe" where
  "set_fields validated_data instance =
     instance\<lparr>recipe_name := case_option (recipe_name instance) id (u_name validated_data),
              image := case_option (image instance) id (u_image validated_data),
              recipe_text := case_option (recipe_text instance) id (u_text validated_data),
              cooking_time :=
                case_option (cooking_time instance) id (u_cooking_time validated_data)\<rparr>"

definition save :: "recipe \<Rightarrow> database \<Rightarrow> database" where
  "save instance s =
     (if list_ex (\<lambda>r. recipe_id r = recipe_id instance) (recipe_table s)
      then s\<lparr>recipe_table :=
               map (\<lambda>r. if recipe_id r = recipe_id instance then instance else r)
                 (recipe_table s)\<rparr>
      else s\<lparr>recipe_table := recipe_table s @ [instance]\<rparr>)"

definition update :: "recipe \<Rightarrow> update_data \<Rightarrow> database \<Rightarrow> (error + recipe) \<times> database" where
  "update instance validated_data s =
     (let ingredients = u_ingredients validated_data;
          tags = u_tags validated_data;
          s1 = tags_clear (recipe_id instance) s
      in case tags_add (recipe_id instance) tags s1 of
           Inl IntegrityError \<Rightarrow> (Inl (NotFound ''tags'' Param_not_found), s1)
         | Inl ValueError \<Rightarrow>
             (Inl (ValidationError ''tags'' (Expected_int (non_int_types tags))), s1)
         | Inr s2 \<Rightarrow>
             (let s3 = ingredients_clear (recipe_id instance) s2;
                  s4 = foldl (ingred_recipes_create (recipe_id instance)) s3 ingredients;
                  instance' = set_fields validated_data instance
              in (Inr instance', save instance' s4)))"

section \<open>\<^verbatim>\<open>RecipeSerializer\<close> and \<^verbatim>\<open>UserSerializer\<close>: the fields relative to the viewer\<close>

text \<open>
  \<^verbatim>\<open>request.user\<close> is a user of the database or the anonymous user. The anonymous user is
  no row of the user table and has no related managers: a query with it raises.
\<close>

datatype request_user = AnonymousUser | AuthenticatedUser nat

fun is_authenticated :: "request_user \<Rightarrow> bool" where
  "is_authenticated AnonymousUser = False"
| "is_authenticated (AuthenticatedUser _) = True"

text \<open>\<^verbatim>\<open>user.subscriptions\<close>: the rows in which the user is the follower.\<close>

definition user_subscriptions :: "request_user \<Rightarrow> database \<Rightarrow> error + (nat \<times> nat) list" where
  "user_subscriptions user s =
     (case user of
        AnonymousUser \<Rightarrow> Inl (Uncaught ''AttributeError'')
      | AuthenticatedUser u \<Rightarrow>
          Inr (filter (\<lambda>(usr, follower). follower = u) (subscriptions s)))"

text \<open>\<^verbatim>\<open>.filter(user=user)\<close> on rows whose first column is the user.\<close>

definition filter_user :: "request_user \<Rightarrow> (nat \<times> nat) list \<Rightarrow> error + (nat \<times> nat) list" where
  "filter_user user rows =
     (case user of
        AnonymousUser \<Rightarrow> Inl (Uncaught ''TypeError'')
      | AuthenticatedUser u \<Rightarrow> Inr (filter (\<lambda>(usr, r). usr = u) rows))"

text \<open>
  In each method the operator \<^verbatim>\<open>and\<close> evaluates the query only when
  \<^verbatim>\<open>user.is_authenticated\<close> holds.
\<close>

definition get_is_subscribed :: "database \<Rightarrow> request_user \<Rightarrow> nat \<Rightarrow> error + bool" where
  "get_is_subscribed s user obj =
     (if is_authenticated user
      then (case user_subscriptions user s of
              Inl e \<Rightarrow> Inl e
            | Inr rows \<Rightarrow>
                Inr (if filter (\<lambda>(usr, follower). usr = obj) rows \<noteq> [] then True else False))
      else Inr False)"

definition get_is_favorited :: "database \<Rightarrow> request_user \<Rightarrow> recipe \<Rightarrow> error + bool" where
  "get_is_favorited s user obj =
     (if is_authenticated user
      then (case filter_user user (filter (\<lambda>(usr, r). r = recipe_id obj) (favourite s)) of
              Inl e \<Rightarrow> Inl e
            | Inr rows \<Rightarrow> Inr (if rows \<noteq> [] then True else False))
      else Inr False)"

definition get_is_in_shopping_cart :: "database \<Rightarrow> request_user \<Rightarrow> recipe \<Rightarrow> error + bool" where
  "get_is_in_shopping_cart s user obj =
     (if is_authenticated user
      then (case filter_user user (filter (\<lambda>(usr, r). r = recipe_id obj) (carts s)) of
              Inl e \<Rightarrow> Inl e
            | Inr rows \<Rightarrow> Inr (if rows \<noteq> [] then True else False))
      else Inr False)"

text \<open>
  The representation of a recipe, field by field in the order of \<^verbatim>\<open>Meta.fields\<close>. Of the
  author the id and \<^verbatim>\<open>is_subscribed\<close> are kept (the other columns of a user are copied
  as they are).
\<close>

record user_repr =
  user_id :: nat
  is_subscribed :: bool

record recipe_repr =
  repr_id :: nat
  repr_tags :: "int list"
  repr_author :: user_repr
  repr_ingredients :: "(nat \<times> string \<times> string \<times> int) list"
  is_favorited :: bool
  is_in_shopping_cart :: bool
  repr_name :: string
  repr_image :: string
  repr_text :: string
  repr_cooking_time :: int

definition to_representation :: "database \<Rightarrow> request_user \<Rightarrow> recipe \<Rightarrow> error + recipe_repr" where
  "to_representation s user obj =
     (case get_is_subscribed s user (author obj) of
        Inl e \<Rightarrow> Inl e
      | Inr subscribed \<Rightarrow>
          (case get_is_favorited s user obj of
             Inl e \<Rightarrow> Inl e
           | Inr favorited \<Rightarrow>
               (case get_is_in_shopping_cart s user obj of
                  Inl e \<Rightarrow> Inl e
                | Inr in_cart \<Rightarrow>
                    Inr \<lparr>repr_id = recipe_id obj,
                         repr_tags = tags_of s (recipe_id obj),
                         repr_author = \<lparr>user_id = author obj, is_subscribed = subscribed\<rparr>,
                         repr_ingredients =
                           map (\<lambda>row. (ingr_id (ir_ingredient row), ingr_name (ir_ingredient row),
                                        measurement_unit (ir_ingredient row), ir_amount row))
                             (ingred_recipes_of s (recipe_id obj)),
                         is_favorited = favorited,
                         is_in_shopping_cart = in_cart,
                         repr_name = recipe_name obj,
                         repr_image = image obj,
                         repr_text = recipe_text obj,
                         repr_cooking_time = cooking_time obj\<rparr>)))"

section \<open>\<^verbatim>\<open>FavouriteSerializer\<close>\<close>

text \<open>
  \<^verbatim>\<open>data\<close> holds the user and the recipe; the lookup goes through the related manager
  \<^verbatim>\<open>favourite\<close> of the recipe. Both messages of the source are the sentences of the
  subscription validator ("the user is already subscribed", "the user is not
  subscribed").
\<close>

definition favourite_validate :: "string \<Rightarrow> nat \<times> nat \<Rightarrow> database \<Rightarrow> error + nat \<times> nat" where
  "favourite_validate method data s =
     (let is_exist =
            (filter (\<lambda>(usr, r). usr = fst data)
               (filter (\<lambda>(usr, r). r = snd data) (favourite s)) \<noteq> [])
      in if method = ''POST'' \<and> is_exist
         then Inl (ValidationError ''errors'' User_already_subscribed)
         else if method = ''DELETE'' \<and> \<not> is_exist
         then Inl (ValidationError ''errors'' User_not_subscribed)
         else Inr data)"

text \<open>
  Modelled from the spec: the serializer of the shopping cart is not among the sources.
  The specification gives the cart the policy of the favourites ("symmetric policy for
  both Favorite and Cart"), so the validator is the one above on the table \<open>carts\<close>.
\<close>

definition cart_validate :: "string \<Rightarrow> nat \<times> nat \<Rightarrow> database \<Rightarrow> error + nat \<times> nat" where
  "cart_validate method data s =
     (let is_exist =
            (filter (\<lambda>(usr, r). usr = fst data)
               (filter (\<lambda>(usr, r). r = snd data) (carts s)) \<noteq> [])
      in if method = ''POST'' \<and> is_exist
         then Inl (ValidationError ''errors'' User_already_subscribed)
         else if method = ''DELETE'' \<and> \<not> is_exist
         then Inl (ValidationError ''errors'' User_not_subscribed)
         else Inr data)"

text \<open>
  Modelled from the spec: the view that adds a favourite is not among the sources. By
  the specification, add "creates the association" once the validator has accepted the
  pair.
\<close>

definition favourite_add :: "nat \<times> nat \<Rightarrow> database \<Rightarrow> (error + nat \<times> nat) \<times> database" where
  "favourite_add data s =
     (case favourite_validate ''POST'' data s of
        Inl e \<Rightarrow> (Inl e, s)
      | Inr d \<Rightarrow> (Inr d, s\<lparr>favourite := favourite s @ [d]\<rparr>))"

text \<open>
  Modelled from the spec: the view that removes a favourite is not among the sources. By
  the specification, remove "deletes it" once the validator has accepted the pair.
\<close>

definition favourite_remove :: "nat \<times> nat \<Rightarrow> database \<Rightarrow> (error + nat \<times> nat) \<times> database" where
  "favourite_remove data s =
     (case favourite_validate ''DELETE'' data s of
        Inl e \<Rightarrow> (Inl e, s)
      | Inr d \<Rightarrow> (Inr d, s\<lparr>favourite := filter (\<lambda>row. row \<noteq> d) (favourite s)\<rparr>))"

section \<open>\<^verbatim>\<open>UserSubscriptionsSerializer\<close>\<close>






section \<open>\<^verbatim>\<open>SubscriptionsSerializer\<close>\<close>


section \<open>Example data\<close>

definition salt :: ingredient where
  "salt = \<lparr>ingr_id = 5, ingr_name = ''salt'', measurement_unit = ''g''\<rparr>"

definition flour :: ingredient where
  "flour = \<lparr>ingr_id = 7, ingr_name = ''flour'', measurement_unit = ''g''\<rparr>"

definition repeated_entries :: "ingredient_entry list" where
  "repeated_entries =
     [\<lparr>ingredient = salt, amount = 2\<rparr>, \<lparr>ingredient = flour, amount = 1\<rparr>,
      \<lparr>ingredient = salt, amount = 3\<rparr>]"

definition distinct_entries :: "ingredient_entry list" where
  "distinct_entries = [\<lparr>ingredient = salt, amount = 2\<rparr>, \<lparr>ingredient = flour, amount = 1\<rparr>]"

definition empty_db :: database where
  "empty_db = \<lparr>tag_table = [], recipe_table = [], recipe_tags = [], ingred_recipes = [],
               favourite = [], carts = [], subscriptions = [], next_recipe_id = 1\<rparr>"



definition soup :: recipe where
  "soup = \<lparr>recipe_id = 1, author = 1, recipe_name = ''soup'', image = ''soup.png'',
           recipe_text = ''boil'', cooking_time = 30\<rparr>"

definition cake :: recipe where
  "cake = \<lparr>recipe_id = 2, author = 1, recipe_name = ''cake'', image = ''cake.png'',
           recipe_text = ''bake'', cooking_time = 60\<rparr>"

text \<open>
  The recipe of the scenario of the specification: tags 1 and 2, one ingredient row
  (ingredient 5, amount 2).
\<close>

definition kitchen_db :: database where
  "kitchen_db =
     \<lparr>tag_table = [1, 2, 3], recipe_table = [soup, cake], recipe_tags = [(1, 1), (1, 2)],
      ingred_recipes = [\<lparr>ir_recipe = 1, ir_ingredient = salt, ir_amount = 2\<rparr>],
      favourite = [], carts = [], subscriptions = [], next_recipe_id = 3\<rparr>"


definition changes :: "tag_value list \<Rightarrow> update_data" where
  "changes tags =
     \<lparr>u_name = None, u_image = None, u_text = None, u_cooking_time = None, u_tags = tags,
      u_ingredients = [\<lparr>ingredient = salt, amount = 4\<rparr>]\<rparr>"

definition updated_db :: database where
  "updated_db = kitchen_db\<lparr>recipe_tags := [(1, 3)],
     ingred_recipes := [\<lparr>ir_recipe = 1, ir_ingredient = salt, ir_amount = 4\<rparr>]\<rparr>"

section \<open>The uniqueness check of the ingredients\<close>

lemma upt_Suc_shift: "[0..<Suc n] = 0 # map Suc [0..<n]"
  by (simp add: upt_conv_Cons map_Suc_upt del: upt_Suc)

text \<open>
  The loop, started with any set \<open>U\<close> and any list \<open>err\<close>: position \<open>i\<close> is reported when
  its id is not in \<open>U\<close> or stands at an earlier position.
\<close>

lemma collect_repeats_index:
  "collect_repeats xs U err =
     err @ map (\<lambda>i. ingr_name (ingredient (xs ! i)))
       (filter (\<lambda>i. entry_ids xs ! i \<notin> U \<or> entry_ids xs ! i \<in> set (take i (entry_ids xs)))
          [0..<length xs])"
proof (induction xs arbitrary: U err)
  case Nil
  then show ?case by simp
next
  case (Cons x xs)
  let ?k = "ingr_id (ingredient x)"
  let ?shifted = "filter (\<lambda>i. entry_ids xs ! i \<notin> U \<or> entry_ids xs ! i = ?k \<or>
                      entry_ids xs ! i \<in> set (take i (entry_ids xs))) [0..<length xs]"
  have ids: "entry_ids (x # xs) = ?k # entry_ids xs"
    by (simp add: entry_ids_def)
  show ?case
  proof (cases "?k \<in> U")
    case True
    have "filter (\<lambda>i. entry_ids xs ! i \<notin> U - {?k} \<or>
                    entry_ids xs ! i \<in> set (take i (entry_ids xs))) [0..<length xs] = ?shifted"
      by (rule filter_cong) auto
    with True show ?thesis
      by (simp add: Cons.IH ids upt_Suc_shift filter_map comp_def del: upt_Suc)
  next
    case False
    have "filter (\<lambda>i. entry_ids xs ! i \<notin> U \<or>
                    entry_ids xs ! i \<in> set (take i (entry_ids xs))) [0..<length xs] = ?shifted"
      using False by (intro filter_cong) auto
    with False show ?thesis
      by (simp add: Cons.IH ids upt_Suc_shift filter_map comp_def del: upt_Suc)
  qed
qed

lemma collect_repeats_all:
  "collect_repeats xs (set (entry_ids xs)) [] = later_repeats xs"
proof -
  have "filter (\<lambda>i. entry_ids xs ! i \<notin> set (entry_ids xs) \<or>
                  entry_ids xs ! i \<in> set (take i (entry_ids xs))) [0..<length xs]
      = filter (\<lambda>i. entry_ids xs ! i \<in> set (take i (entry_ids xs))) [0..<length xs]"
    by (rule filter_cong) (auto simp: entry_ids_def)
  then show ?thesis
    by (simp add: collect_repeats_index later_repeats_def)
qed

lemma validate_ingredients_eq:
  "validate_ingredients xs =
     (if distinct (entry_ids xs) then Inr xs
      else Inl (ValidationError ''detail'' (Repeated_ingredients (later_repeats xs))))"
proof -
  have "length (entry_ids xs) = card (set (entry_ids xs)) \<longleftrightarrow> distinct (entry_ids xs)"
    using card_distinct distinct_card by metis
  then show ?thesis
    using collect_repeats_all[of xs]
    by (simp add: validate_ingredients_def Let_def entry_ids_def)
qed

lemma later_repeats_nonempty:
  assumes "\<not> distinct (entry_ids xs)"
  shows "later_repeats xs \<noteq> []"
proof -
  from assms obtain i j
    where ij: "i < j" "j < length (entry_ids xs)" "entry_ids xs ! i = entry_ids xs ! j"
    by (metis distinct_conv_nth nat_neq_iff)
  then have "entry_ids xs ! j \<in> set (take j (entry_ids xs))"
    by (metis in_set_conv_nth length_take min.absorb2 nth_take order_less_imp_le)
  moreover have "j \<in> set [0..<length xs]"
    using ij by (simp add: entry_ids_def)
  ultimately have
    "j \<in> set (filter (\<lambda>i. entry_ids xs ! i \<in> set (take i (entry_ids xs))) [0..<length xs])"
    by simp
  then show ?thesis
    unfolding later_repeats_def by (metis empty_iff list.set(1) map_is_Nil_conv)
qed

lemma entry_ids_map: "entry_ids xs = map ingr_id (map ingredient xs)"
  by (simp add: entry_ids_def)

lemma later_repeats_cong:
  assumes "map ingredient xs = map ingredient ys"
  shows "later_repeats xs = later_repeats ys"
proof -
  from assms have len: "length xs = length ys"
    by (metis length_map)
  have ids: "entry_ids xs = entry_ids ys"
    by (simp only: entry_ids_map assms)
  have "ingredient (xs ! i) = ingredient (ys ! i)" if "i < length xs" for i
    using that len nth_map[of i xs ingredient] nth_map[of i ys ingredient] assms by simp
  then show ?thesis
    unfolding later_repeats_def ids len[symmetric]
    by (intro map_cong refl) simp
qed

text \<open>
  C3. A list of entries in which an ingredient id stands more than once is refused with
  a \<^verbatim>\<open>ValidationError\<close>; its message is formatted from the names of the entries whose id
  already stands at an earlier position, in the order of the list (the first entry of
  each id is not reported), and at least one name is reported. A list with pairwise
  distinct ids passes.
\<close>

theorem validate_ingredients_duplicates:
  "(\<not> distinct (entry_ids val) \<longrightarrow>
      validate_ingredients val =
        Inl (ValidationError ''detail'' (Repeated_ingredients (later_repeats val))) \<and>
      later_repeats val \<noteq> []) \<and>
   (distinct (entry_ids val) \<longrightarrow> validate_ingredients val = Inr val)"
  by (simp add: validate_ingredients_eq later_repeats_nonempty)

theorem validate_ingredients_duplicates_witness:
  "\<not> distinct (entry_ids repeated_entries) \<and>
   validate_ingredients repeated_entries =
     Inl (ValidationError ''detail'' (Repeated_ingredients [''salt''])) \<and>
   distinct (entry_ids distinct_entries) \<and>
   validate_ingredients distinct_entries = Inr distinct_entries"
  using validate_ingredients_duplicates[of repeated_entries]
    validate_ingredients_duplicates[of distinct_entries]
  by (simp add: entry_ids_def later_repeats_def repeated_entries_def distinct_entries_def
      salt_def flour_def upt_rec)

text \<open>
  C10. On a list with pairwise distinct ingredient ids the check returns the list it was
  given and raises nothing. Whether the check accepts or refuses is the same for two
  lists with the same multiset of ingredient ids; and two lists that differ in the
  amounts only are refused with the same error, or both accepted.
\<close>

theorem validate_ingredients_identity:
  "(distinct (entry_ids val) \<longrightarrow> validate_ingredients val = Inr val) \<and>
   (mset (entry_ids val) = mset (entry_ids val') \<longrightarrow>
      isl (validate_ingredients val) = isl (validate_ingredients val')) \<and>
   (map ingredient val = map ingredient val' \<longrightarrow>
      (\<forall>e. validate_ingredients val = Inl e \<longleftrightarrow> validate_ingredients val' = Inl e) \<and>
      isl (validate_ingredients val) = isl (validate_ingredients val'))"
proof (intro conjI impI)
  assume "distinct (entry_ids val)"
  then show "validate_ingredients val = Inr val"
    by (simp add: validate_ingredients_eq)
next
  assume "mset (entry_ids val) = mset (entry_ids val')"
  then have "distinct (entry_ids val) = distinct (entry_ids val')"
    by (rule mset_eq_imp_distinct_iff)
  then show "isl (validate_ingredients val) = isl (validate_ingredients val')"
    by (simp add: validate_ingredients_eq)
next
  assume same: "map ingredient val = map ingredient val'"
  then have ids: "entry_ids val = entry_ids val'"
    by (simp only: entry_ids_map)
  from same have reps: "later_repeats val = later_repeats val'"
    by (rule later_repeats_cong)
  show "\<forall>e. validate_ingredients val = Inl e \<longleftrightarrow> validate_ingredients val' = Inl e"
    by (simp add: validate_ingredients_eq ids reps)
  show "isl (validate_ingredients val) = isl (validate_ingredients val')"
    by (simp add: validate_ingredients_eq ids)
qed

theorem validate_ingredients_identity_witness:
  "distinct (entry_ids distinct_entries) \<and>
   validate_ingredients distinct_entries = Inr distinct_entries \<and>
   mset (entry_ids distinct_entries) = mset (entry_ids (rev distinct_entries)) \<and>
   isl (validate_ingredients distinct_entries) = isl (validate_ingredients (rev distinct_entries)) \<and>
   map ingredient repeated_entries =
     map ingredient (map (\<lambda>obj. obj\<lparr>amount := 1\<rparr>) repeated_entries) \<and>
   isl (validate_ingredients repeated_entries) =
     isl (validate_ingredients (map (\<lambda>obj. obj\<lparr>amount := 1\<rparr>) repeated_entries))"
  using validate_ingredients_identity[of distinct_entries "rev distinct_entries"]
    validate_ingredients_identity[of repeated_entries
      "map (\<lambda>obj. obj\<lparr>amount := 1\<rparr>) repeated_entries"]
  by (simp add: entry_ids_def repeated_entries_def distinct_entries_def salt_def flour_def
      validate_ingredients_eq)

section \<open>The validators of subscriptions, favourites and the cart\<close>


lemma recipe_then_user:
  "(filter (\<lambda>(a, b). a = x) (filter (\<lambda>(a, b). b = y) rows) \<noteq> []) = ((x, y) \<in> set rows)"
  by (auto simp: filter_empty_conv)




text \<open>
  C7. With \<^verbatim>\<open>POST\<close> the validator of the favourites refuses a pair (user, recipe) that
  is stored ("already" message) and accepts any other; with \<^verbatim>\<open>DELETE\<close> it refuses a pair
  that is not stored ("not" message) and accepts a stored one. The same holds for the
  cart. Hence adding a pair a second time fails, and removing a pair that was never
  added fails.
\<close>

theorem favourite_validate_cases:
  "favourite_validate ''POST'' (u, r) s =
     (if (u, r) \<in> set (favourite s)
      then Inl (ValidationError ''errors'' User_already_subscribed) else Inr (u, r)) \<and>
   favourite_validate ''DELETE'' (u, r) s =
     (if (u, r) \<in> set (favourite s)
      then Inr (u, r) else Inl (ValidationError ''errors'' User_not_subscribed)) \<and>
   cart_validate ''POST'' (u, r) s =
     (if (u, r) \<in> set (carts s)
      then Inl (ValidationError ''errors'' User_already_subscribed) else Inr (u, r)) \<and>
   cart_validate ''DELETE'' (u, r) s =
     (if (u, r) \<in> set (carts s)
      then Inr (u, r) else Inl (ValidationError ''errors'' User_not_subscribed)) \<and>
   (\<forall>d s'. favourite_add (u, r) s = (Inr d, s') \<longrightarrow>
      favourite_add (u, r) s' = (Inl (ValidationError ''errors'' User_already_subscribed), s')) \<and>
   ((u, r) \<notin> set (favourite s) \<longrightarrow>
      favourite_remove (u, r) s = (Inl (ValidationError ''errors'' User_not_subscribed), s))"
  unfolding favourite_validate_def cart_validate_def favourite_add_def
    favourite_remove_def Let_def fst_conv snd_conv recipe_then_user
  by (auto split: if_splits)

theorem favourite_validate_cases_witness:
  "favourite_add (1, 4) empty_db = (Inr (1, 4), empty_db\<lparr>favourite := [(1, 4)]\<rparr>) \<and>
   favourite_add (1, 4) (empty_db\<lparr>favourite := [(1, 4)]\<rparr>) =
     (Inl (ValidationError ''errors'' User_already_subscribed),
      empty_db\<lparr>favourite := [(1, 4)]\<rparr>) \<and>
   (1, 4) \<notin> set (favourite empty_db) \<and>
   favourite_remove (1, 4) empty_db =
     (Inl (ValidationError ''errors'' User_not_subscribed), empty_db)"
  using favourite_validate_cases[of 1 4 empty_db]
  by (simp add: favourite_add_def empty_db_def)

section \<open>The fields relative to the viewer\<close>

text \<open>
  For a signed-in viewer the fields do depend on the rows: with the row stored, the
  recipe is a favourite of the viewer.
\<close>

lemma get_is_favorited_authenticated:
  "get_is_favorited s (AuthenticatedUser u) obj = Inr ((u, recipe_id obj) \<in> set (favourite s))"
  unfolding get_is_favorited_def filter_user_def request_user.case is_authenticated.simps
    if_True sum.case recipe_then_user
  by simp

text \<open>
  C9. For the anonymous viewer the three methods return false whatever rows the tables
  hold, and the representation of a recipe is built without an error, with
  \<^verbatim>\<open>is_favorited\<close>, \<^verbatim>\<open>is_in_shopping_cart\<close> and the author's \<^verbatim>\<open>is_subscribed\<close> all false.
\<close>

theorem to_representation_anonymous:
  "get_is_favorited s AnonymousUser obj = Inr False \<and>
   get_is_in_shopping_cart s AnonymousUser obj = Inr False \<and>
   get_is_subscribed s AnonymousUser (author obj) = Inr False \<and>
   (\<exists>rep. to_representation s AnonymousUser obj = Inr rep \<and>
      is_favorited rep = False \<and> is_in_shopping_cart rep = False \<and>
      is_subscribed (repr_author rep) = False)"
  by (simp add: to_representation_def get_is_favorited_def get_is_in_shopping_cart_def
      get_is_subscribed_def)

section \<open>The recipes of a followed user\<close>




section \<open>Writing the tags and the ingredients of a recipe\<close>

lemma foldl_ingred_recipes_create:
  "foldl (ingred_recipes_create rid) s es =
     s\<lparr>ingred_recipes := ingred_recipes s @
        map (\<lambda>e. \<lparr>ir_recipe = rid, ir_ingredient = ingredient e, ir_amount = amount e\<rparr>) es\<rparr>"
  by (induction es arbitrary: s) (simp_all add: ingred_recipes_create_def)

lemma get_prep_value_error: "get_prep_value t = Inl e \<Longrightarrow> e = ValueError"
  by (cases t) (auto split: option.splits)

lemma get_target_ids_error: "get_target_ids objs = Inl e \<Longrightarrow> e = ValueError"
  by (induction objs) (auto split: sum.splits dest: get_prep_value_error)


lemma get_target_ids_ints: "get_target_ids (map TInt ns) = Inr ns"
  by (induction ns) simp_all

text \<open>Adding to a recipe that has no tag rows: every prepared id is inserted.\<close>

lemma tags_add_fresh:
  assumes "list_all (\<lambda>(r, t). r \<noteq> rid) (recipe_tags s)"
  shows "tags_add rid objs s =
     (case get_target_ids objs of
        Inl e \<Rightarrow> Inl e
      | Inr ids \<Rightarrow>
          if set ids \<subseteq> set (tag_table s)
          then Inr (s\<lparr>recipe_tags := recipe_tags s @ map (Pair rid) (remdups ids)\<rparr>)
          else Inl IntegrityError)"
proof (cases "get_target_ids objs")
  case (Inl e)
  then show ?thesis by (simp add: tags_add_def)
next
  case (Inr ids)
  have "filter (\<lambda>t. (rid, t) \<notin> set (recipe_tags s)) (remdups ids) = remdups ids"
    using assms by (intro filter_True) (auto simp: list_all_iff)
  with Inr show ?thesis
    by (auto simp: tags_add_def Let_def list_all_iff)
qed

lemma tags_add_after_clear:
  "tags_add rid objs (tags_clear rid s) =
     (case get_target_ids objs of
        Inl e \<Rightarrow> Inl e
      | Inr ids \<Rightarrow>
          if set ids \<subseteq> set (tag_table s)
          then Inr (s\<lparr>recipe_tags := filter (\<lambda>(r, t). r \<noteq> rid) (recipe_tags s) @
                      map (Pair rid) (remdups ids)\<rparr>)
          else Inl IntegrityError)"
proof -
  have "list_all (\<lambda>(r, t). r \<noteq> rid) (recipe_tags (tags_clear rid s))"
    by (auto simp: tags_clear_def list_all_iff)
  from tags_add_fresh[OF this, of objs] show ?thesis
    by (simp add: tags_clear_def split: sum.splits)
qed

lemma tags_of_replaced:
  "tags_of (s\<lparr>recipe_tags := filter (\<lambda>(r, t). r \<noteq> rid) rows @ map (Pair rid) ids\<rparr>) rid = ids"
proof -
  have "filter (\<lambda>(r, t). r = rid) (filter (\<lambda>(r, t). r \<noteq> rid) rows) = []"
    by (auto simp: filter_empty_conv)
  moreover have "filter (\<lambda>(r, t). r = rid) (map (Pair rid) ids) = map (Pair rid) ids"
    by (rule filter_True) auto
  ultimately show ?thesis
    by (simp add: tags_of_def comp_def del: filter_filter)
qed

lemma save_tables:
  "recipe_tags (save i s) = recipe_tags s" "ingred_recipes (save i s) = ingred_recipes s"
  by (simp_all add: save_def)

lemma tags_of_cong: "recipe_tags s = recipe_tags s' \<Longrightarrow> tags_of s rid = tags_of s' rid"
  by (simp add: tags_of_def)

text \<open>The three outcomes of \<^verbatim>\<open>update\<close>.\<close>

lemma update_cases:
  "update instance p s =
     (case get_target_ids (u_tags p) of
        Inl e \<Rightarrow>
          (Inl (ValidationError ''tags'' (Expected_int (non_int_types (u_tags p)))),
           tags_clear (recipe_id instance) s)
      | Inr ids \<Rightarrow>
          if set ids \<subseteq> set (tag_table s)
          then (Inr (set_fields p instance),
                save (set_fields p instance)
                  (s\<lparr>recipe_tags := filter (\<lambda>(r, t). r \<noteq> recipe_id instance) (recipe_tags s) @
                        map (Pair (recipe_id instance)) (remdups ids),
                     ingred_recipes :=
                        filter (\<lambda>row. ir_recipe row \<noteq> recipe_id instance) (ingred_recipes s) @
                        map (\<lambda>e. \<lparr>ir_recipe = recipe_id instance, ir_ingredient = ingredient e,
                                   ir_amount = amount e\<rparr>) (u_ingredients p)\<rparr>))
          else (Inl (NotFound ''tags'' Param_not_found), tags_clear (recipe_id instance) s))"
proof (cases "get_target_ids (u_tags p)")
  case (Inl e)
  then have "e = ValueError" by (rule get_target_ids_error)
  with Inl show ?thesis
    by (simp add: update_def Let_def tags_add_after_clear)
next
  case (Inr ids)
  then show ?thesis
    by (simp add: update_def Let_def tags_add_after_clear ingredients_clear_def
        foldl_ingred_recipes_create)
qed


text \<open>
  Whatever makes \<^verbatim>\<open>update\<close> fail, the database it leaves is the one it was given with
  the tag rows of the recipe cleared.
\<close>

lemma update_failure:
  "fst (update instance p s) = Inl e \<Longrightarrow>
   snd (update instance p s) = tags_clear (recipe_id instance) s"
  by (auto simp: update_cases split: sum.splits if_splits)

lemma tags_of_clear: "tags_of (tags_clear rid s) rid = []"
  by (auto simp: tags_of_def tags_clear_def filter_empty_conv)

text \<open>
  C2, on the code. The recipe \<open>soup\<close> has the tags 1 and 2. An update whose tag list
  names the tag 99, which does not exist, fails with \<^verbatim>\<open>NotFound\<close>; the tag rows of the
  recipe were cleared before, and the recipe is left with no tag.
\<close>

theorem update_unknown_tag_clears_tags:
  "update soup (changes [TInt 99]) kitchen_db =
     (Inl (NotFound ''tags'' Param_not_found), kitchen_db\<lparr>recipe_tags := []\<rparr>) \<and>
   tags_of kitchen_db 1 = [1, 2] \<and>
   tags_of (snd (update soup (changes [TInt 99]) kitchen_db)) 1 = []"
  by (simp add: update_def tags_clear_def tags_add_def tags_of_def changes_def kitchen_db_def
      soup_def Let_def)







text \<open>
  C8. After a successful \<^verbatim>\<open>update\<close> the tags of the recipe are exactly the ids that the
  tag list of the payload denotes, each once (for a list of integers: exactly these
  integers), and its ingredient rows are exactly the entries of the payload, in their
  order and with their amounts: nothing of the old rows is kept. In the scenario of the
  specification (tags 1 and 2 and ingredient 5 with amount 2 before; tags [3] and
  ingredient 5 with amount 4 in the payload) the recipe ends with the tag 3 alone and
  with one ingredient row, of amount 4.
\<close>

theorem update_replaces_associations:
  assumes "update instance p s = (Inr r', s')"
  shows "(\<exists>ids. get_target_ids (u_tags p) = Inr ids \<and>
            set (tags_of s' (recipe_id instance)) = set ids) \<and>
         distinct (tags_of s' (recipe_id instance)) \<and>
         (\<forall>ns. u_tags p = map TInt ns \<longrightarrow> set (tags_of s' (recipe_id instance)) = set ns) \<and>
         ingred_recipes_of s' (recipe_id instance) =
           map (\<lambda>e. \<lparr>ir_recipe = recipe_id instance, ir_ingredient = ingredient e,
                      ir_amount = amount e\<rparr>) (u_ingredients p)"
proof -
  let ?rid = "recipe_id instance"
  let ?rows = "map (\<lambda>e. \<lparr>ir_recipe = ?rid, ir_ingredient = ingredient e,
                      ir_amount = amount e\<rparr>) (u_ingredients p)"
  from assms obtain ids where ids: "get_target_ids (u_tags p) = Inr ids"
    and s': "s' = save (set_fields p instance)
                  (s\<lparr>recipe_tags := filter (\<lambda>(r, t). r \<noteq> ?rid) (recipe_tags s) @
                        map (Pair ?rid) (remdups ids),
                     ingred_recipes :=
                        filter (\<lambda>row. ir_recipe row \<noteq> ?rid) (ingred_recipes s) @ ?rows\<rparr>)"
    by (auto simp: update_cases split: sum.splits if_splits)
  have "tags_of s' ?rid =
      tags_of (s\<lparr>recipe_tags := filter (\<lambda>(r, t). r \<noteq> ?rid) (recipe_tags s) @
                        map (Pair ?rid) (remdups ids)\<rparr>) ?rid"
    by (rule tags_of_cong) (simp add: s' save_tables)
  then have tags: "tags_of s' ?rid = remdups ids"
    by (simp only: tags_of_replaced)
  have "filter (\<lambda>row. ir_recipe row = ?rid)
          (filter (\<lambda>row. ir_recipe row \<noteq> ?rid) (ingred_recipes s)) = []"
    by (auto simp: filter_empty_conv)
  moreover have "filter (\<lambda>row. ir_recipe row = ?rid) ?rows = ?rows"
    by (rule filter_True) auto
  ultimately have ingr: "ingred_recipes_of s' ?rid = ?rows"
    by (simp add: ingred_recipes_of_def s' save_tables del: filter_filter)
  have ints: "set (tags_of s' ?rid) = set ns" if "u_tags p = map TInt ns" for ns
    using that ids tags by (simp add: get_target_ids_ints)
  show ?thesis
    using ids tags ingr ints by simp
qed

theorem update_replaces_associations_witness:
  "update soup (changes [TInt 3]) kitchen_db = (Inr soup, updated_db) \<and>
   tags_of kitchen_db 1 = [1, 2] \<and>
   tags_of updated_db 1 = [3] \<and>
   ingred_recipes_of updated_db 1 = [\<lparr>ir_recipe = 1, ir_ingredient = salt, ir_amount = 4\<rparr>]"
proof -
  have u: "update soup (changes [TInt 3]) kitchen_db = (Inr soup, updated_db)"
    by (simp add: update_cases changes_def kitchen_db_def updated_db_def soup_def cake_def
        set_fields_def save_def)
  have "set (tags_of updated_db (recipe_id soup)) = set [3]"
    using update_replaces_associations[OF u] by (simp add: changes_def)
  then show ?thesis
    using u by (simp add: tags_of_def ingred_recipes_of_def updated_db_def kitchen_db_def)
qed

end
